theory Spec2Isabelle
  imports Complex_Main "HOL-Library.Word"
begin

section \<open>Tensors, errors and effects\<close>

text \<open>
  The program is \<^verbatim>\<open>lightning_examples/augmentation_kornia/augmentation.py\<close>: three
  classes (\<^verbatim>\<open>DataAugmentation\<close>, \<^verbatim>\<open>Preprocess\<close>, \<^verbatim>\<open>CoolSystem\<close>) that compose calls
  into torch, kornia, torchvision, torchmetrics and pytorch_lightning.

  A tensor (and a numpy array) is its shape and its elements in row-major order.
  Float32 elements are read as exact reals; the element type of an 8-bit image is
  \<open>8 word\<close>.
\<close>

record 'a tensor =
  shape :: "nat list"
  data :: "'a list"

text \<open>Exceptions a library call of the program can raise.\<close>

datatype error = ValueError | IndexError | RuntimeError | TypeError

text \<open>
  A call that reads and writes a state \<open>'s\<close> and either raises or returns a value.
  A raised exception leaves the state as it was at the raise.
\<close>

type_synonym ('s, 'a) exn_state = "'s \<Rightarrow> (error + 'a) \<times> 's"

definition returnE :: "'a \<Rightarrow> ('s, 'a) exn_state" where
  "returnE a = (\<lambda>s. (Inr a, s))"

definition bindE :: "('s, 'a) exn_state \<Rightarrow> ('a \<Rightarrow> ('s, 'b) exn_state) \<Rightarrow> ('s, 'b) exn_state" where
  "bindE m f = (\<lambda>s. case m s of (Inl e, s') \<Rightarrow> (Inl e, s') | (Inr a, s') \<Rightarrow> f a s')"

text \<open>A pure computation that may raise, run inside a stateful one.\<close>

definition liftE :: "error + 'a \<Rightarrow> ('s, 'a) exn_state" where
  "liftE r = (\<lambda>s. (r, s))"

section \<open>DataAugmentation\<close>

text \<open>
  The kornia augmentation modules the program constructs, with the arguments it
  passes. The first three take the probability \<open>p\<close>; \<^verbatim>\<open>ColorJitter\<close> takes
  brightness, contrast, saturation and hue.
\<close>

datatype aug =
    RandomHorizontalFlip real
  | RandomChannelShuffle real
  | RandomThinPlateSpline real
  | ColorJitter real real real real

text \<open>
  What calling such a module does is kornia's business, not the program's: it is a
  parameter \<open>kornia\<close> of the model, a function that maps the module and the input
  batch to a computation on the state \<open>'g\<close> of torch's random number generator.
\<close>

type_synonym 'g kornia = "aug \<Rightarrow> real tensor \<Rightarrow> ('g, real tensor) exn_state"

record DataAugmentation =
  apply_color_jitter :: bool
  transforms :: "aug list"
  jitter :: aug

text \<open>\<^verbatim>\<open>DataAugmentation.__init__(self, apply_color_jitter)\<close>\<close>

definition DataAugmentation_init :: "bool \<Rightarrow> DataAugmentation" where
  "DataAugmentation_init flag =
     \<lparr> apply_color_jitter = flag,
       transforms =
         [RandomHorizontalFlip 0.75, RandomChannelShuffle 0.75, RandomThinPlateSpline 0.75],
       jitter = ColorJitter 0.5 0.5 0.5 0.5 \<rparr>"

text \<open>\<^verbatim>\<open>DataAugmentation()\<close>: the parameter \<^verbatim>\<open>apply_color_jitter\<close> defaults to \<^verbatim>\<open>False\<close>.\<close>

definition DataAugmentation_default :: DataAugmentation where
  "DataAugmentation_default = DataAugmentation_init False"

text \<open>\<^verbatim>\<open>nn.Sequential.forward\<close>: each module in turn, on the output of the one before.\<close>

fun Sequential :: "'g kornia \<Rightarrow> aug list \<Rightarrow> real tensor \<Rightarrow> ('g, real tensor) exn_state" where
  "Sequential kornia [] x = returnE x"
| "Sequential kornia (m # ms) x = bindE (kornia m x) (Sequential kornia ms)"

text \<open>\<^verbatim>\<open>DataAugmentation.forward(self, x)\<close>\<close>

definition DataAugmentation_forward ::
  "'g kornia \<Rightarrow> DataAugmentation \<Rightarrow> real tensor \<Rightarrow> ('g, real tensor) exn_state" where
  "DataAugmentation_forward kornia self x =
     bindE (Sequential kornia (transforms self) x)
       (\<lambda>x_out. if apply_color_jitter self then kornia (jitter self) x_out else returnE x_out)"

section \<open>Preprocess\<close>

text \<open>
  \<^verbatim>\<open>Tensor.unsqueeze(0)\<close>, and \<^verbatim>\<open>Tensor.permute(2, 0, 1)\<close> on an array of shape
  \<open>(H, W, C)\<close>: element \<open>(c, h, w)\<close> of the result is element \<open>(h, w, c)\<close> of the
  argument, which row-major order keeps at offset \<open>(h * W + w) * C + c\<close>. Likewise
  \<^verbatim>\<open>permute(0, 3, 1, 2)\<close> on shape \<open>(B, H, W, C)\<close>.
\<close>

definition unsqueeze0 :: "'a tensor \<Rightarrow> 'a tensor" where
  "unsqueeze0 t = \<lparr>shape = 1 # shape t, data = data t\<rparr>"

definition permute_2_0_1 :: "nat \<Rightarrow> nat \<Rightarrow> nat \<Rightarrow> 'a list \<Rightarrow> 'a tensor" where
  "permute_2_0_1 H W C xs =
     \<lparr>shape = [C, H, W],
      data = concat (map (\<lambda>c. concat (map (\<lambda>h. map (\<lambda>w. xs ! ((h * W + w) * C + c))
                [0..<W]) [0..<H])) [0..<C])\<rparr>"

definition permute_0_3_1_2 :: "nat \<Rightarrow> nat \<Rightarrow> nat \<Rightarrow> nat \<Rightarrow> 'a list \<Rightarrow> 'a tensor" where
  "permute_0_3_1_2 B H W C xs =
     \<lparr>shape = [B, C, H, W],
      data = concat (map (\<lambda>b. concat (map (\<lambda>c. concat (map (\<lambda>h.
                map (\<lambda>w. xs ! (((b * H + h) * W + w) * C + c))
                [0..<W]) [0..<H])) [0..<C])) [0..<B])\<rparr>"

text \<open>
  \<^verbatim>\<open>kornia.image_to_tensor(image, keepdim)\<close>, after kornia's documentation: an array of
  two, three or four dimensions, \<open>(H, W)\<close> to \<open>(1, H, W)\<close>, \<open>(H, W, C)\<close> to \<open>(C, H, W)\<close>,
  \<open>(B, H, W, C)\<close> to \<open>(B, C, H, W)\<close>; a leading batch dimension is added to the first
  two unless \<open>keepdim\<close>; any other number of dimensions raises \<^verbatim>\<open>ValueError\<close>.
\<close>

definition image_to_tensor :: "'a tensor \<Rightarrow> bool \<Rightarrow> error + 'a tensor" where
  "image_to_tensor img keepdim =
     (case shape img of
        [H, W] \<Rightarrow>
          (let t = unsqueeze0 img in Inr (if keepdim then t else unsqueeze0 t))
      | [H, W, C] \<Rightarrow>
          (let t = permute_2_0_1 H W C (data img) in Inr (if keepdim then t else unsqueeze0 t))
      | [B, H, W, C] \<Rightarrow> Inr (permute_0_3_1_2 B H W C (data img))
      | _ \<Rightarrow> Inl ValueError)"

text \<open>\<^verbatim>\<open>Tensor.float()\<close> on 8-bit elements, and division of a tensor by a scalar.\<close>

definition float :: "8 word tensor \<Rightarrow> real tensor" where
  "float t = \<lparr>shape = shape t, data = map (\<lambda>v. real (unat v)) (data t)\<rparr>"

definition div_scalar :: "real tensor \<Rightarrow> real \<Rightarrow> real tensor" where
  "div_scalar t c = \<lparr>shape = shape t, data = map (\<lambda>v. v / c) (data t)\<rparr>"

text \<open>
  \<^verbatim>\<open>Preprocess.forward(self, x)\<close>. The raw image \<open>x\<close> is given as the 8-bit array that
  \<^verbatim>\<open>np.array(x)\<close> makes of it: \<open>H x W x C\<close> for a colour image, \<open>H x W\<close> for a
  grey one. The class has no attribute and the method calls no random source, so the
  model takes the image and nothing else.
\<close>

definition Preprocess_forward :: "8 word tensor \<Rightarrow> error + real tensor" where
  "Preprocess_forward x =
     (let x_tmp = x in
      case image_to_tensor x_tmp True of
        Inl e \<Rightarrow> Inl e
      | Inr x_out \<Rightarrow> Inr (div_scalar (float x_out) 255))"

section \<open>CoolSystem\<close>

text \<open>
  The output of the classifier is a two-dimensional tensor, one row of class scores
  per sample; it is held as the list of its rows. A scalar tensor is a real or, for
  the mean of no element, \<^verbatim>\<open>nan\<close>.
\<close>

type_synonym logits = "real list list"

datatype scalar = Val real | NaN

text \<open>
  \<^verbatim>\<open>F.softmax(input)\<close> with no \<^verbatim>\<open>dim\<close>: on a two-dimensional input torch takes
  \<^verbatim>\<open>dim = 1\<close>, the softmax of each row.
\<close>

definition softmax_row :: "real list \<Rightarrow> real list" where
  "softmax_row r = map (\<lambda>v. exp v / sum_list (map exp r)) r"

definition softmax :: "logits \<Rightarrow> logits" where
  "softmax z = map softmax_row z"

definition log_softmax_row :: "real list \<Rightarrow> real list" where
  "log_softmax_row r = map (\<lambda>v. v - ln (sum_list (map exp r))) r"

text \<open>
  \<^verbatim>\<open>F.cross_entropy(input, target)\<close> with torch's defaults (class-index targets, no
  weights, \<^verbatim>\<open>ignore_index = -100\<close>, \<^verbatim>\<open>reduction = 'mean'\<close>): the batch sizes must
  agree; a target equal to \<open>-100\<close> is skipped; any other target outside
  \<open>0 .. C - 1\<close> raises; the result is the mean over the targets kept of minus the
  log-softmax of the row at the target, \<^verbatim>\<open>nan\<close> when none is kept.
\<close>

definition cross_entropy :: "logits \<Rightarrow> int list \<Rightarrow> error + scalar" where
  "cross_entropy input target =
     (if length input \<noteq> length target then Inl ValueError
      else
        let kept = filter (\<lambda>(row, t). t \<noteq> - 100) (zip input target) in
        if list_ex (\<lambda>(row, t). t < 0 \<or> int (length row) \<le> t) kept then Inl IndexError
        else if kept = [] then Inr NaN
        else Inr (Val (sum_list (map (\<lambda>(row, t). - (log_softmax_row row ! nat t)) kept)
                        / real (length kept))))"

text \<open>
  A torch module holds parameters, which an optimizer updates, and buffers (the
  running statistics of batch normalisation), which a forward pass may update.
\<close>

record ('w, 'b) module =
  parameters :: 'w
  buffers :: 'b

text \<open>One metric logged by \<^verbatim>\<open>self.log(name, value, prog_bar=...)\<close>.\<close>

record metric =
  metric_name :: string
  metric_value :: scalar
  prog_bar :: bool

text \<open>
  The state the step methods read and write: the attributes of the \<open>CoolSystem\<close>
  instance (\<open>model\<close>, \<open>transform\<close>, \<open>accuracy\<close>; \<open>preprocess\<close> has no state), the
  state of torch's random number generator, and the metrics logged so far.
\<close>

record ('g, 'w, 'b, 'm) CoolSystem =
  model :: "('w, 'b) module"
  transform :: DataAugmentation
  accuracy :: 'm
  rng :: 'g
  logged :: "metric list"

text \<open>
  Two more library calls are parameters of the model: the forward pass of the
  network (\<^verbatim>\<open>torchvision.models.resnet18\<close>), a computation on the module that returns
  the class scores of a batch, and the call of the \<^verbatim>\<open>torchmetrics.Accuracy\<close> object, a
  computation on the metric's own state.
\<close>

type_synonym ('w, 'b) net = "real tensor \<Rightarrow> (('w, 'b) module, logits) exn_state"

type_synonym 'm metric_call = "logits \<Rightarrow> int list \<Rightarrow> ('m, scalar) exn_state"

text \<open>A computation on one component of the state, run on the whole state.\<close>

definition on_rng :: "('g, 'a) exn_state \<Rightarrow> (('g, 'w, 'b, 'm) CoolSystem, 'a) exn_state" where
  "on_rng c = (\<lambda>s. case c (rng s) of (r, g') \<Rightarrow> (r, s\<lparr>rng := g'\<rparr>))"

definition on_model ::
  "(('w, 'b) module, 'a) exn_state \<Rightarrow> (('g, 'w, 'b, 'm) CoolSystem, 'a) exn_state" where
  "on_model c = (\<lambda>s. case c (model s) of (r, m') \<Rightarrow> (r, s\<lparr>model := m'\<rparr>))"

definition on_accuracy :: "('m, 'a) exn_state \<Rightarrow> (('g, 'w, 'b, 'm) CoolSystem, 'a) exn_state" where
  "on_accuracy c = (\<lambda>s. case c (accuracy s) of (r, a') \<Rightarrow> (r, s\<lparr>accuracy := a'\<rparr>))"

text \<open>\<^verbatim>\<open>self.log(name, value, prog_bar=pb)\<close>\<close>

definition log_metric ::
  "string \<Rightarrow> scalar \<Rightarrow> bool \<Rightarrow> (('g, 'w, 'b, 'm) CoolSystem, unit) exn_state" where
  "log_metric n v pb =
     (\<lambda>s. (Inr (), s\<lparr>logged := logged s @ [\<lparr>metric_name = n, metric_value = v, prog_bar = pb\<rparr>]\<rparr>))"

text \<open>
  \<^verbatim>\<open>CoolSystem.__init__(self)\<close>, from the pretrained network, a fresh accuracy metric
  and the generator state; nothing is logged yet.
\<close>

definition CoolSystem_init :: "('w, 'b) module \<Rightarrow> 'm \<Rightarrow> 'g \<Rightarrow> ('g, 'w, 'b, 'm) CoolSystem" where
  "CoolSystem_init pretrained fresh_metric g =
     \<lparr> model = pretrained,
       transform = DataAugmentation_default,
       accuracy = fresh_metric,
       rng = g,
       logged = [] \<rparr>"

text \<open>\<^verbatim>\<open>CoolSystem.forward(self, x)\<close>\<close>

definition forward :: "('w, 'b) net \<Rightarrow> real tensor \<Rightarrow> (('g, 'w, 'b, 'm) CoolSystem, logits) exn_state" where
  "forward net x = bindE (on_model (net x)) (\<lambda>z. returnE (softmax z))"

text \<open>\<^verbatim>\<open>CoolSystem.compute_loss(self, y_hat, y)\<close>\<close>

definition compute_loss :: "logits \<Rightarrow> int list \<Rightarrow> error + scalar" where
  "compute_loss y_hat y = cross_entropy y_hat y"

text \<open>\<^verbatim>\<open>CoolSystem.training_step(self, batch, batch_idx)\<close>\<close>

definition training_step ::
  "'g kornia \<Rightarrow> ('w, 'b) net \<Rightarrow> 'm metric_call \<Rightarrow> real tensor \<times> int list \<Rightarrow> nat \<Rightarrow>
     (('g, 'w, 'b, 'm) CoolSystem, scalar) exn_state" where
  "training_step kornia net acc batch batch_idx =
     (case batch of (x, y) \<Rightarrow>
        bindE (\<lambda>s. on_rng (DataAugmentation_forward kornia (transform s) x) s) (\<lambda>x_aug.
        bindE (forward net x_aug) (\<lambda>y_hat.
        bindE (liftE (compute_loss y_hat y)) (\<lambda>loss.
        bindE (log_metric ''train_loss'' loss False) (\<lambda>_.
        bindE (on_accuracy (acc y_hat y)) (\<lambda>a.
        bindE (log_metric ''train_acc'' a False) (\<lambda>_.
        returnE loss)))))))"

text \<open>\<^verbatim>\<open>CoolSystem.validation_step(self, batch, batch_idx)\<close>\<close>

definition validation_step ::
  "('w, 'b) net \<Rightarrow> 'm metric_call \<Rightarrow> real tensor \<times> int list \<Rightarrow> nat \<Rightarrow>
     (('g, 'w, 'b, 'm) CoolSystem, unit) exn_state" where
  "validation_step net acc batch batch_idx =
     (case batch of (x, y) \<Rightarrow>
        bindE (forward net x) (\<lambda>y_hat.
        bindE (liftE (compute_loss y_hat y)) (\<lambda>loss.
        bindE (log_metric ''valid_loss'' loss False) (\<lambda>_.
        bindE (on_accuracy (acc y_hat y)) (\<lambda>a.
        bindE (log_metric ''valid_acc'' a True) (\<lambda>_.
        returnE ()))))))"

section \<open>Datasets and loaders\<close>

text \<open>
  The arguments of \<^verbatim>\<open>CIFAR10(root, train=..., download=..., transform=...)\<close>; the
  transform is applied to each sample when it is read.
\<close>

record CIFAR10 =
  root :: string
  train :: bool
  download :: bool
  cifar_transform :: "8 word tensor \<Rightarrow> error + real tensor"

text \<open>
  \<^verbatim>\<open>DataLoader(dataset, batch_size=...)\<close>. The arguments the program leaves out keep
  torch's defaults: no shuffling, no dropping of a short last batch.
\<close>

record DataLoader =
  dataset :: CIFAR10
  batch_size :: nat
  shuffle :: bool
  drop_last :: bool

definition DataLoader_init :: "CIFAR10 \<Rightarrow> nat \<Rightarrow> DataLoader" where
  "DataLoader_init ds bs = \<lparr>dataset = ds, batch_size = bs, shuffle = False, drop_last = False\<rparr>"

text \<open>
  \<^verbatim>\<open>CoolSystem.train_dataloader(self)\<close> and \<^verbatim>\<open>CoolSystem.val_dataloader(self)\<close>;
  \<open>cwd\<close> is what \<^verbatim>\<open>os.getcwd()\<close> returns, and \<^verbatim>\<open>self.preprocess\<close> is the
  \<open>Preprocess\<close> instance, called through its \<open>forward\<close>.
\<close>

definition train_dataloader :: "string \<Rightarrow> DataLoader" where
  "train_dataloader cwd =
     (let dataset = \<lparr>root = cwd, train = True, download = True,
                      cifar_transform = Preprocess_forward\<rparr>;
          loader = DataLoader_init dataset 32
      in loader)"

definition val_dataloader :: "string \<Rightarrow> DataLoader" where
  "val_dataloader cwd =
     (let dataset = \<lparr>root = cwd, train = True, download = True,
                      cifar_transform = Preprocess_forward\<rparr>;
          loader = DataLoader_init dataset 32
      in loader)"

text \<open>
  Iterating a loader over a dataset of \<open>n\<close> samples. Creating the iterator draws a
  base seed from torch's generator (\<open>base_seed\<close>, a parameter). The sampler then
  yields the indices \<open>0, ..., n - 1\<close> in order, or, when shuffling, the permutation
  that \<^verbatim>\<open>torch.randperm\<close> (a parameter) draws from the generator. The batch sampler
  collects them: a batch is yielded when it holds \<open>batch_size\<close> indices, and what is
  left at the end is yielded unless \<open>drop_last\<close>.
\<close>

definition sampler :: "(nat \<Rightarrow> ('g, nat list) exn_state) \<Rightarrow> DataLoader \<Rightarrow> nat \<Rightarrow> ('g, nat list) exn_state" where
  "sampler randperm loader n = (if shuffle loader then randperm n else returnE [0..<n])"

fun batch_sampler :: "nat \<Rightarrow> bool \<Rightarrow> nat list \<Rightarrow> nat list \<Rightarrow> nat list list" where
  "batch_sampler bs dl batch [] = (if length batch > 0 \<and> \<not> dl then [batch] else [])"
| "batch_sampler bs dl batch (idx # rest) =
     (let batch' = batch @ [idx] in
      if length batch' = bs then batch' # batch_sampler bs dl [] rest
      else batch_sampler bs dl batch' rest)"

definition DataLoader_iter ::
  "('g \<Rightarrow> int \<times> 'g) \<Rightarrow> (nat \<Rightarrow> ('g, nat list) exn_state) \<Rightarrow> DataLoader \<Rightarrow> nat \<Rightarrow>
     ('g, nat list list) exn_state" where
  "DataLoader_iter base_seed randperm loader n =
     bindE (\<lambda>g. case base_seed g of (seed, g') \<Rightarrow> (Inr seed, g'))
       (\<lambda>seed. bindE (sampler randperm loader n)
         (\<lambda>indices. returnE (batch_sampler (batch_size loader) (drop_last loader) [] indices)))"

section \<open>Properties of DataAugmentation\<close>

lemma bindE_returnE: "bindE m returnE = m"
  by (auto simp: bindE_def returnE_def fun_eq_iff split: prod.splits sum.splits)

lemma returnE_bindE: "bindE (returnE a) f = f a"
  by (simp add: bindE_def returnE_def)

lemma bindE_assoc: "bindE (bindE m f) h = bindE m (\<lambda>a. bindE (f a) h)"
  by (auto simp: bindE_def fun_eq_iff split: prod.splits sum.splits)

text \<open>
  C3. For every input batch and generator state, \<open>DataAugmentation.forward\<close> calls
  the horizontal flip with \<open>p = 0.75\<close> first, the channel shuffle with \<open>p = 0.75\<close> on
  its output, the thin-plate-spline warp with \<open>p = 0.75\<close> on the output of that, and
  the colour jitter, when the flag is set, only on the output of the warp.
\<close>

theorem DataAugmentation_forward_order:
  "DataAugmentation_forward kornia (DataAugmentation_init flag) x =
     bindE (kornia (RandomHorizontalFlip 0.75) x) (\<lambda>x1.
     bindE (kornia (RandomChannelShuffle 0.75) x1) (\<lambda>x2.
     bindE (kornia (RandomThinPlateSpline 0.75) x2) (\<lambda>x3.
       if flag then kornia (ColorJitter 0.5 0.5 0.5 0.5) x3 else returnE x3)))"
  by (cases flag)
    (simp_all add: DataAugmentation_forward_def DataAugmentation_init_def bindE_assoc
      returnE_bindE)

text \<open>
  C4. With \<open>apply_color_jitter\<close> false, as \<^verbatim>\<open>DataAugmentation()\<close> leaves it, the output
  and the generator state of \<open>DataAugmentation.forward\<close> are those of the sequence of
  flip, shuffle and warp alone, for every input batch and every behaviour of the kornia
  modules: the colour jitter is not called.
\<close>

theorem DataAugmentation_forward_no_jitter:
  "DataAugmentation_forward kornia (self\<lparr>apply_color_jitter := False\<rparr>) x =
     Sequential kornia (transforms self) x
   \<and> apply_color_jitter DataAugmentation_default = False
   \<and> DataAugmentation_forward kornia DataAugmentation_default x =
     Sequential kornia
       [RandomHorizontalFlip 0.75, RandomChannelShuffle 0.75, RandomThinPlateSpline 0.75] x"
  by (simp add: DataAugmentation_forward_def DataAugmentation_default_def
      DataAugmentation_init_def bindE_returnE)

section \<open>Properties of Preprocess\<close>

lemma block_index_less: "i < m \<Longrightarrow> j < n \<Longrightarrow> i * n + j < m * (n::nat)"
proof -
  assume i: "i < m" and j: "j < n"
  have "i * n + j < Suc i * n" using j by simp
  also have "\<dots> \<le> m * n" using i by (intro mult_le_mono1) simp
  finally show ?thesis .
qed

lemma length_concat_blocks:
  "(\<And>k. k < m \<Longrightarrow> length (g k) = n) \<Longrightarrow> length (concat (map g [0..<m])) = m * n"
  by (induction m) simp_all

lemma nth_concat_blocks:
  assumes "\<And>k. k < m \<Longrightarrow> length (g k) = n" and "i < m" and "j < n"
  shows "concat (map g [0..<m]) ! (i * n + j) = g i ! j"
  using assms
proof (induction m)
  case 0
  then show ?case by simp
next
  case (Suc m)
  have len: "length (concat (map g [0..<m])) = m * n"
    by (rule length_concat_blocks) (simp add: Suc.prems(1))
  show ?case
  proof (cases "i < m")
    case True
    then have "i * n + j < m * n"
      using Suc.prems(3) by (rule block_index_less)
    with True Suc show ?thesis by (simp add: nth_append len)
  next
    case False
    with Suc.prems(2) have "i = m" by simp
    then show ?thesis by (simp add: nth_append len)
  qed
qed

lemma permute_2_0_1_length: "length (data (permute_2_0_1 H W C xs)) = C * (H * W)"
  unfolding permute_2_0_1_def
  by (simp add: length_concat_blocks [where n = "H * W"] length_concat_blocks [where n = W])

lemma permute_2_0_1_nth:
  assumes "c < C" and "h < H" and "w < W"
  shows "data (permute_2_0_1 H W C xs) ! ((c * H + h) * W + w) = xs ! ((h * W + w) * C + c)"
proof -
  let ?row = "\<lambda>c h. map (\<lambda>w. xs ! ((h * W + w) * C + c)) [0..<W]"
  let ?plane = "\<lambda>c. concat (map (?row c) [0..<H])"
  have hw: "h * W + w < H * W"
    using assms(2,3) by (rule block_index_less)
  have plane_len: "\<And>k. length (?plane k) = H * W"
    by (simp add: length_concat_blocks [where n = W])
  have "data (permute_2_0_1 H W C xs) ! (c * (H * W) + (h * W + w)) = ?plane c ! (h * W + w)"
    unfolding permute_2_0_1_def using plane_len assms(1) hw
    by (simp add: nth_concat_blocks [where n = "H * W"])
  also have "\<dots> = ?row c h ! w"
    using assms(2,3) by (simp add: nth_concat_blocks [where n = W])
  also have "\<dots> = xs ! ((h * W + w) * C + c)"
    using assms(3) by simp
  finally show ?thesis by (simp add: algebra_simps)
qed


lemma unat_byte_le: "unat (v :: 8 word) \<le> 255"
  using unsigned_less [of v, where ?'a = nat] by simp

text \<open>
  C6. On the array of a three-channel image, of shape \<open>(H, W, 3)\<close> with its
  \<open>H * W * 3\<close> bytes, \<open>Preprocess.forward\<close> returns a tensor of shape \<open>(3, H, W)\<close>
  whose values all lie in \<open>[0, 1]\<close> and whose element \<open>(c, h, w)\<close> is byte \<open>(h, w, c)\<close>
  of the image divided by 255. The result is a function of the image alone: the
  model of \<open>Preprocess.forward\<close> has no generator, state or instance argument, and
  the elements given here determine the tensor.
\<close>

theorem Preprocess_forward_chw_unit_range:
  assumes "shape x = [H, W, 3]" and "length (data x) = H * W * 3"
  shows "\<exists>t. Preprocess_forward x = Inr t
     \<and> shape t = [3, H, W]
     \<and> length (data t) = 3 * H * W
     \<and> (\<forall>v \<in> set (data t). 0 \<le> v \<and> v \<le> 1)
     \<and> (\<forall>c<3. \<forall>h<H. \<forall>w<W.
           (h * W + w) * 3 + c < length (data x)
         \<and> (c * H + h) * W + w < length (data t)
         \<and> data t ! ((c * H + h) * W + w) = real (unat (data x ! ((h * W + w) * 3 + c))) / 255)"
proof -
  define p where "p = permute_2_0_1 H W 3 (data x)"
  define t where "t = div_scalar (float p) 255"
  have run: "Preprocess_forward x = Inr t"
    by (simp add: Preprocess_forward_def image_to_tensor_def assms(1) t_def p_def)
  have sh: "shape t = [3, H, W]"
    by (simp add: t_def p_def div_scalar_def float_def permute_2_0_1_def)
  have dt: "data t = map (\<lambda>v. real (unat v) / 255) (data p)"
    by (simp add: t_def div_scalar_def float_def)
  have len: "length (data t) = 3 * H * W"
    by (simp add: dt p_def permute_2_0_1_length)
  have range: "\<forall>v \<in> set (data t). 0 \<le> v \<and> v \<le> 1"
  proof
    fix v assume "v \<in> set (data t)"
    then obtain b :: "8 word" where veq: "v = real (unat b) / 255"
      by (auto simp: dt)
    have "real (unat b) \<le> 255"
      using unat_byte_le [of b] by linarith
    then have hi: "real (unat b) / 255 \<le> 1" by simp
    have "0 \<le> real (unat b)" by (rule of_nat_0_le_iff)
    then have lo: "0 \<le> real (unat b) / 255" by (rule divide_nonneg_nonneg) simp
    show "0 \<le> v \<and> v \<le> 1"
      unfolding veq using lo hi by (rule conjI)
  qed
  have elems: "\<forall>c<3. \<forall>h<H. \<forall>w<W.
           (h * W + w) * 3 + c < length (data x)
         \<and> (c * H + h) * W + w < length (data t)
         \<and> data t ! ((c * H + h) * W + w) = real (unat (data x ! ((h * W + w) * 3 + c))) / 255"
  proof (intro allI impI)
    fix c h w :: nat
    assume c: "c < 3" and h: "h < H" and w: "w < W"
    have "h * W + w < H * W"
      using h w by (rule block_index_less)
    then have src: "(h * W + w) * 3 + c < length (data x)"
      using c assms(2) by simp
    have "c * H + h < 3 * H"
      using c h by (rule block_index_less)
    then have "(c * H + h) * W + w < (3 * H) * W"
      using w by (rule block_index_less)
    then have dst: "(c * H + h) * W + w < length (data t)"
      by (simp add: len)
    then have "(c * H + h) * W + w < length (data p)"
      by (simp add: dt)
    then have "data t ! ((c * H + h) * W + w) = real (unat (data p ! ((c * H + h) * W + w))) / 255"
      by (simp add: dt)
    also have "data p ! ((c * H + h) * W + w) = data x ! ((h * W + w) * 3 + c)"
      unfolding p_def by (rule permute_2_0_1_nth) (use c h w in auto)
    finally show "(h * W + w) * 3 + c < length (data x)
         \<and> (c * H + h) * W + w < length (data t)
         \<and> data t ! ((c * H + h) * W + w) = real (unat (data x ! ((h * W + w) * 3 + c))) / 255"
      using src dst by simp
  qed
  from run sh len range elems show ?thesis by (intro exI [of _ t] conjI)
qed

text \<open>An instance: an image of one row and two pixels.\<close>

theorem Preprocess_forward_chw_unit_range_witness:
  "\<exists>t. Preprocess_forward \<lparr>shape = [1, 2, 3], data = [0, 128, 255, 10, 20, 30]\<rparr> = Inr t
     \<and> shape t = [3, 1, 2]
     \<and> length (data t) = 6
     \<and> data t ! 1 = 10 / 255
     \<and> data t ! 4 = 1"
proof -
  let ?x = "\<lparr>shape = [1, 2, 3], data = [0, 128, 255, 10, 20, 30 :: 8 word]\<rparr>"
  have "shape ?x = [1, 2, 3]" and "length (data ?x) = 1 * 2 * 3"
    by simp_all
  from Preprocess_forward_chw_unit_range [OF this] obtain t where
    t: "Preprocess_forward ?x = Inr t" "shape t = [3, 1, 2]" "length (data t) = 3 * 1 * 2"
    and el: "\<forall>c<3. \<forall>h<1. \<forall>w<2.
           (h * 2 + w) * 3 + c < length (data ?x)
         \<and> (c * 1 + h) * 2 + w < length (data t)
         \<and> data t ! ((c * 1 + h) * 2 + w) =
               real (unat (data ?x ! ((h * 2 + w) * 3 + c))) / 255"
    by (elim exE conjE)
  have e1: "data t ! 1 = 10 / 255"
    using el [rule_format, of 0 0 1] by simp
  have e4: "data t ! 4 = 1"
    using el [rule_format, of 2 0 0] by simp
  from t e1 e4 show ?thesis by simp
qed

section \<open>Properties of the step methods\<close>

text \<open>
  The run of \<open>training_step\<close> when every call returns: the augmentation gives
  \<open>x_aug\<close>, the network gives the scores \<open>z\<close> of \<open>x_aug\<close>, the loss is what
  \<open>cross_entropy\<close> makes of \<open>softmax z\<close>, and the two metrics are appended to the log.
\<close>

lemma training_step_run:
  assumes "DataAugmentation_forward kornia (transform s) x (rng s) = (Inr x_aug, g')"
    and "net x_aug (model s) = (Inr z, m')"
    and "cross_entropy (softmax z) y = Inr loss"
    and "acc (softmax z) y (accuracy s) = (Inr a, c')"
  shows "training_step kornia net acc (x, y) batch_idx s =
     (Inr loss,
      s\<lparr> rng := g', model := m', accuracy := c',
         logged := logged s @
           [\<lparr>metric_name = ''train_loss'', metric_value = loss, prog_bar = False\<rparr>,
            \<lparr>metric_name = ''train_acc'', metric_value = a, prog_bar = False\<rparr>] \<rparr>)"
  using assms
  by (simp add: training_step_def bindE_def on_rng_def forward_def on_model_def returnE_def
      liftE_def compute_loss_def log_metric_def on_accuracy_def)

text \<open>
  The run of \<open>validation_step\<close> when every call returns: the network is given the
  batch \<open>x\<close> itself, and the generator is not touched.
\<close>

lemma validation_step_run:
  assumes "net x (model s) = (Inr z, m')"
    and "cross_entropy (softmax z) y = Inr loss"
    and "acc (softmax z) y (accuracy s) = (Inr a, c')"
  shows "validation_step net acc (x, y) batch_idx s =
     (Inr (),
      s\<lparr> model := m', accuracy := c',
         logged := logged s @
           [\<lparr>metric_name = ''valid_loss'', metric_value = loss, prog_bar = False\<rparr>,
            \<lparr>metric_name = ''valid_acc'', metric_value = a, prog_bar = True\<rparr>] \<rparr>)
     \<and> rng (snd (validation_step net acc (x, y) batch_idx s)) = rng s"
  using assms
  by (simp add: validation_step_def bindE_def forward_def on_model_def returnE_def
      liftE_def compute_loss_def log_metric_def on_accuracy_def)

text \<open>
  C5. Whatever the batch and the outcome (a return or an exception),
  \<open>validation_step\<close> leaves the parameters of the model as they were, provided the
  forward pass of the network does: nothing else in the method writes the module.
\<close>

theorem validation_step_keeps_parameters:
  assumes "\<And>t m r m'. net t m = (r, m') \<Longrightarrow> parameters m' = parameters m"
  shows "parameters (model (snd (validation_step net acc batch batch_idx s))) =
     parameters (model s)"
proof -
  obtain x y where batch: "batch = (x, y)" by (cases batch)
  obtain r m' where run: "net x (model s) = (r, m')" by (cases "net x (model s)")
  from assms [OF run] have keep: "parameters m' = parameters (model s)" .
  show ?thesis
  proof (cases r)
    case (Inl e)
    with run keep batch show ?thesis
      by (simp add: validation_step_def bindE_def forward_def on_model_def)
  next
    case (Inr z)
    show ?thesis
    proof (cases "cross_entropy (softmax z) y")
      case (Inl e)
      with run keep batch \<open>r = Inr z\<close> show ?thesis
        by (simp add: validation_step_def bindE_def forward_def on_model_def returnE_def
            liftE_def compute_loss_def)
    next
      case loss: (Inr loss)
      obtain ra c' where a: "acc (softmax z) y (accuracy s) = (ra, c')"
        by (cases "acc (softmax z) y (accuracy s)")
      with run keep batch \<open>r = Inr z\<close> loss show ?thesis
        by (cases ra)
          (simp_all add: validation_step_def bindE_def forward_def on_model_def returnE_def
            liftE_def compute_loss_def log_metric_def on_accuracy_def)
    qed
  qed
qed


text \<open>An instance: a network that updates its buffers and no parameter.\<close>

theorem validation_step_keeps_parameters_witness:
  "parameters (model (snd (validation_step
       (\<lambda>t m. (Inr [[0, 0]], m\<lparr>buffers := Suc (buffers m)\<rparr>))
       (\<lambda>p y c. (Inr (Val 1), Suc c))
       (\<lparr>shape = [1, 3, 1, 1], data = [0, 0.5, 1]\<rparr>, [1]) 0
       (CoolSystem_init \<lparr>parameters = [7::int], buffers = 0::nat\<rparr> (0::nat) (5::nat))))) = [7]"
proof -
  let ?n = "\<lambda>(t::real tensor) (m::(int list, nat) module).
              (Inr [[0, 0]] :: error + logits, m\<lparr>buffers := Suc (buffers m)\<rparr>)"
  let ?a = "\<lambda>(p::logits) (y::int list) (c::nat). (Inr (Val 1) :: error + scalar, Suc c)"
  let ?x = "\<lparr>shape = [1, 3, 1, 1], data = [0, 0.5, 1::real]\<rparr>"
  let ?s = "CoolSystem_init \<lparr>parameters = [7::int], buffers = 0::nat\<rparr> (0::nat) (5::nat)"
  have "parameters (model (snd (validation_step ?n ?a (?x, [1]) 0 ?s))) = parameters (model ?s)"
    by (rule validation_step_keeps_parameters) auto
  then show ?thesis
    by (simp add: CoolSystem_init_def)
qed


section \<open>The loss that the step methods compute\<close>

text \<open>
  One sample with label 1 whose scores from the network are \<open>0\<close> and \<open>ln 3\<close>: the
  predictions that \<open>forward\<close> returns are the probabilities \<open>1/4\<close> and \<open>3/4\<close>, and
  their cross entropy against the label is \<open>- ln (3/4)\<close>. \<open>compute_loss\<close> hands the
  probabilities to \<^verbatim>\<open>F.cross_entropy\<close>, which takes a softmax of its input again.
\<close>

lemma softmax_example: "softmax [[0, ln 3]] = [[1 / 4, 3 / 4]]"
  by (simp add: softmax_def softmax_row_def)

lemma cross_entropy_example:
  "cross_entropy [[1 / 4, 3 / 4]] [1] = Inr (Val (ln (exp (1 / 4) + exp (3 / 4)) - 3 / 4))"
  by (simp add: cross_entropy_def log_softmax_row_def)

lemma exp_half_less_3: "exp (1 / 2 :: real) < 3"
proof -
  have "exp (1 / 2 :: real) < exp 1" by simp
  also have "\<dots> \<le> 3" by (rule exp_le)
  finally show ?thesis .
qed

lemma double_softmax_differs: "ln (exp (1 / 4) + exp (3 / 4)) - 3 / 4 \<noteq> - ln (3 / 4 :: real)"
proof
  let ?A = "exp (1 / 4) + exp (3 / 4 :: real)"
  assume eq: "ln ?A - 3 / 4 = - ln (3 / 4 :: real)"
  have pos: "0 < ?A" by (simp add: add_pos_pos)
  from eq have "ln ?A = 3 / 4 - ln (3 / 4)" by simp
  then have "exp (ln ?A) = exp (3 / 4 - ln (3 / 4))" by simp
  with pos have "?A = exp (3 / 4 - ln (3 / 4))" by (simp only: exp_ln)
  also have "\<dots> = exp (3 / 4) / (3 / 4)" by (simp only: exp_diff) simp
  finally have "3 * exp (1 / 4 :: real) = exp (3 / 4)" by (simp add: field_simps)
  also have "exp (3 / 4 :: real) = exp (1 / 4) * exp (1 / 2)"
    by (simp only: exp_add [symmetric]) simp
  finally have "exp (1 / 2 :: real) = 3" by simp
  with exp_half_less_3 show False by simp
qed

text \<open>
  C1, at that sample. The kornia modules mirror the element list and advance the
  generator, and the network reads its first score off the batch it is given, so the
  scores are \<open>0\<close> and \<open>ln 3\<close> only because it is given the augmented batch.
  \<open>training_step\<close> augments, runs \<open>forward\<close>, logs \<open>train_loss\<close> and \<open>train_acc\<close> and
  returns the logged loss, as the claim says; but that loss is
  \<open>ln (exp (1/4) + exp (3/4)) - 3/4\<close>, which is not the cross entropy \<open>- ln (3/4)\<close> of
  the predictions \<open>1/4\<close>, \<open>3/4\<close> against the label.
\<close>

theorem training_step_loss_is_double_softmax:
  "training_step
       (\<lambda>m t g. (Inr (t\<lparr>data := rev (data t)\<rparr>), Suc g))
       (\<lambda>t m. (Inr [[data t ! 0, ln 3]], m\<lparr>buffers := Suc (buffers m)\<rparr>))
       (\<lambda>p y c. (Inr (Val 1), Suc c))
       (\<lparr>shape = [1, 3, 1, 1], data = [1, 0.5, 0]\<rparr>, [1]) 0
       (CoolSystem_init \<lparr>parameters = [7::int], buffers = 0::nat\<rparr> (0::nat) (0::nat)) =
     (Inr (Val (ln (exp (1 / 4) + exp (3 / 4)) - 3 / 4)),
      \<lparr> model = \<lparr>parameters = [7], buffers = 1\<rparr>,
        transform = DataAugmentation_default,
        accuracy = 1,
        rng = 3,
        logged =
          [\<lparr>metric_name = ''train_loss'',
            metric_value = Val (ln (exp (1 / 4) + exp (3 / 4)) - 3 / 4), prog_bar = False\<rparr>,
           \<lparr>metric_name = ''train_acc'', metric_value = Val 1, prog_bar = False\<rparr>] \<rparr>)
   \<and> softmax [[0, ln 3]] = [[1 / 4, 3 / 4]]
   \<and> ln (exp (1 / 4) + exp (3 / 4)) - 3 / 4 \<noteq> - ln (3 / 4 :: real)"
proof -
  let ?k = "\<lambda>(m::aug) (t::real tensor) (g::nat). (Inr (t\<lparr>data := rev (data t)\<rparr>) :: error + real tensor, Suc g)"
  let ?n = "\<lambda>(t::real tensor) (m::(int list, nat) module).
              (Inr [[data t ! 0, ln 3]] :: error + logits, m\<lparr>buffers := Suc (buffers m)\<rparr>)"
  let ?a = "\<lambda>(p::logits) (y::int list) (c::nat). (Inr (Val 1) :: error + scalar, Suc c)"
  let ?x = "\<lparr>shape = [1, 3, 1, 1], data = [1, 0.5, 0::real]\<rparr>"
  let ?s = "CoolSystem_init \<lparr>parameters = [7::int], buffers = 0::nat\<rparr> (0::nat) (0::nat)"
  let ?loss = "Val (ln (exp (1 / 4) + exp (3 / 4)) - 3 / 4)"
  have aug: "DataAugmentation_forward ?k (transform ?s) ?x (rng ?s) =
      (Inr \<lparr>shape = [1, 3, 1, 1], data = [0, 0.5, 1]\<rparr>, 3)"
    by (simp add: CoolSystem_init_def DataAugmentation_default_def DataAugmentation_init_def
        DataAugmentation_forward_def bindE_def returnE_def)
  have fwd: "?n \<lparr>shape = [1, 3, 1, 1], data = [0, 0.5, 1]\<rparr> (model ?s) =
      (Inr [[0, ln 3]], \<lparr>parameters = [7], buffers = 1\<rparr>)"
    by (simp add: CoolSystem_init_def)
  have loss: "cross_entropy (softmax [[0, ln 3]]) [1] = Inr ?loss"
    by (simp only: softmax_example cross_entropy_example)
  have acc: "?a (softmax [[0, ln 3]]) [1] (accuracy ?s) = (Inr (Val 1), 1)"
    by (simp add: CoolSystem_init_def)
  have "training_step ?k ?n ?a (?x, [1]) 0 ?s =
     (Inr ?loss,
      ?s\<lparr> rng := 3, model := \<lparr>parameters = [7], buffers = 1\<rparr>, accuracy := 1,
         logged := logged ?s @
           [\<lparr>metric_name = ''train_loss'', metric_value = ?loss, prog_bar = False\<rparr>,
            \<lparr>metric_name = ''train_acc'', metric_value = Val 1, prog_bar = False\<rparr>] \<rparr>)"
    using aug fwd loss acc by (rule training_step_run)
  then have "training_step ?k ?n ?a (?x, [1]) 0 ?s =
     (Inr ?loss,
      \<lparr> model = \<lparr>parameters = [7], buffers = 1\<rparr>,
        transform = DataAugmentation_default,
        accuracy = 1,
        rng = 3,
        logged =
          [\<lparr>metric_name = ''train_loss'', metric_value = ?loss, prog_bar = False\<rparr>,
           \<lparr>metric_name = ''train_acc'', metric_value = Val 1, prog_bar = False\<rparr>] \<rparr>)"
    by (simp add: CoolSystem_init_def)
  with softmax_example double_softmax_differs show ?thesis
    by (intro conjI)
qed

text \<open>
  C2, at that sample. \<open>validation_step\<close> gives the network the batch itself (the
  scores are \<open>0\<close> and \<open>ln 3\<close> only on the batch as it came), leaves the generator
  alone and logs \<open>valid_loss\<close> and \<open>valid_acc\<close>, the second on the progress bar, as
  the claim says; but the loss it logs is \<open>ln (exp (1/4) + exp (3/4)) - 3/4\<close>, which
  is not the cross entropy \<open>- ln (3/4)\<close> of the predictions against the label.
\<close>

theorem validation_step_loss_is_double_softmax:
  "validation_step
       (\<lambda>t m. (Inr [[data t ! 0, ln 3]], m\<lparr>buffers := Suc (buffers m)\<rparr>))
       (\<lambda>p y c. (Inr (Val 1), Suc c))
       (\<lparr>shape = [1, 3, 1, 1], data = [0, 0.5, 1]\<rparr>, [1]) 0
       (CoolSystem_init \<lparr>parameters = [7::int], buffers = 0::nat\<rparr> (0::nat) (5::nat)) =
     (Inr (),
      \<lparr> model = \<lparr>parameters = [7], buffers = 1\<rparr>,
        transform = DataAugmentation_default,
        accuracy = 1,
        rng = 5,
        logged =
          [\<lparr>metric_name = ''valid_loss'',
            metric_value = Val (ln (exp (1 / 4) + exp (3 / 4)) - 3 / 4), prog_bar = False\<rparr>,
           \<lparr>metric_name = ''valid_acc'', metric_value = Val 1, prog_bar = True\<rparr>] \<rparr>)
   \<and> softmax [[0, ln 3]] = [[1 / 4, 3 / 4]]
   \<and> ln (exp (1 / 4) + exp (3 / 4)) - 3 / 4 \<noteq> - ln (3 / 4 :: real)"
proof -
  let ?n = "\<lambda>(t::real tensor) (m::(int list, nat) module).
              (Inr [[data t ! 0, ln 3]] :: error + logits, m\<lparr>buffers := Suc (buffers m)\<rparr>)"
  let ?a = "\<lambda>(p::logits) (y::int list) (c::nat). (Inr (Val 1) :: error + scalar, Suc c)"
  let ?x = "\<lparr>shape = [1, 3, 1, 1], data = [0, 0.5, 1::real]\<rparr>"
  let ?s = "CoolSystem_init \<lparr>parameters = [7::int], buffers = 0::nat\<rparr> (0::nat) (5::nat)"
  let ?loss = "Val (ln (exp (1 / 4) + exp (3 / 4)) - 3 / 4)"
  have fwd: "?n ?x (model ?s) = (Inr [[0, ln 3]], \<lparr>parameters = [7], buffers = 1\<rparr>)"
    by (simp add: CoolSystem_init_def)
  have loss: "cross_entropy (softmax [[0, ln 3]]) [1] = Inr ?loss"
    by (simp only: softmax_example cross_entropy_example)
  have acc: "?a (softmax [[0, ln 3]]) [1] (accuracy ?s) = (Inr (Val 1), 1)"
    by (simp add: CoolSystem_init_def)
  have "validation_step ?n ?a (?x, [1]) 0 ?s =
     (Inr (),
      ?s\<lparr> model := \<lparr>parameters = [7], buffers = 1\<rparr>, accuracy := 1,
         logged := logged ?s @
           [\<lparr>metric_name = ''valid_loss'', metric_value = ?loss, prog_bar = False\<rparr>,
            \<lparr>metric_name = ''valid_acc'', metric_value = Val 1, prog_bar = True\<rparr>] \<rparr>)
     \<and> rng (snd (validation_step ?n ?a (?x, [1]) 0 ?s)) = rng ?s"
    using fwd loss acc by (rule validation_step_run)
  then have "validation_step ?n ?a (?x, [1]) 0 ?s =
     (Inr (),
      \<lparr> model = \<lparr>parameters = [7], buffers = 1\<rparr>,
        transform = DataAugmentation_default,
        accuracy = 1,
        rng = 5,
        logged =
          [\<lparr>metric_name = ''valid_loss'', metric_value = ?loss, prog_bar = False\<rparr>,
           \<lparr>metric_name = ''valid_acc'', metric_value = Val 1, prog_bar = True\<rparr>] \<rparr>)"
    by (simp add: CoolSystem_init_def)
  with softmax_example double_softmax_differs show ?thesis
    by (intro conjI)
qed

section \<open>The loss is not negative\<close>

lemma sum_exp_nonneg: "0 \<le> sum_list (map exp (r :: real list))"
  by (rule sum_list_nonneg) auto

lemma exp_le_sum_exp: "i < length r \<Longrightarrow> exp (r ! i) \<le> sum_list (map exp (r :: real list))"
proof (induction r arbitrary: i)
  case Nil
  then show ?case by simp
next
  case (Cons a r)
  show ?case
  proof (cases i)
    case 0
    then show ?thesis using sum_exp_nonneg [of r] by simp
  next
    case (Suc j)
    with Cons.prems have "j < length r" by simp
    then have "exp (r ! j) \<le> sum_list (map exp r)" by (rule Cons.IH)
    then have "exp (r ! j) \<le> exp a + sum_list (map exp r)"
      using exp_gt_zero [of a] by linarith
    then show ?thesis using Suc by simp
  qed
qed

lemma log_softmax_row_nonpos:
  assumes "i < length r"
  shows "log_softmax_row r ! i \<le> 0"
proof -
  have le: "exp (r ! i) \<le> sum_list (map exp r)"
    using assms by (rule exp_le_sum_exp)
  have pos: "0 < exp (r ! i)" by simp
  with le have "0 < sum_list (map exp r)" by linarith
  with pos le have "ln (exp (r ! i)) \<le> ln (sum_list (map exp r))"
    by (simp only: ln_le_cancel_iff)
  then have "r ! i \<le> ln (sum_list (map exp r))" by simp
  with assms show ?thesis by (simp add: log_softmax_row_def)
qed

lemma cross_entropy_nonneg:
  assumes len: "length input = length target"
    and ne: "target \<noteq> []"
    and rows: "\<forall>row \<in> set input. length row = K"
    and labels: "\<forall>t \<in> set target. 0 \<le> t \<and> t < int K"
  shows "\<exists>l. cross_entropy input target = Inr (Val l) \<and> 0 \<le> l"
proof -
  let ?kept = "filter (\<lambda>(row, t). t \<noteq> - 100) (zip input target)"
  have valid: "0 \<le> t \<and> t < int (length row)" if "(row, t) \<in> set (zip input target)" for row t
  proof -
    from that have "row \<in> set input" by (rule set_zip_leftD)
    moreover from that have "t \<in> set target" by (rule set_zip_rightD)
    ultimately show ?thesis using rows labels by auto
  qed
  have kept: "?kept = zip input target"
    by (rule filter_True) (use valid in fastforce)
  have in_range: "\<not> list_ex (\<lambda>(row, t). t < 0 \<or> int (length row) \<le> t) (zip input target)"
    using valid by (fastforce simp: list_ex_iff)
  have nonempty: "zip input target \<noteq> []"
    using len ne by (cases input; cases target) auto
  let ?terms = "map (\<lambda>(row, t). - (log_softmax_row row ! nat t)) (zip input target)"
  have "0 \<le> sum_list ?terms"
  proof (rule sum_list_nonneg)
    fix v assume "v \<in> set ?terms"
    then obtain row t where rt: "(row, t) \<in> set (zip input target)"
      and v: "v = - (log_softmax_row row ! nat t)"
      by auto
    from valid [OF rt] have "nat t < length row" by auto
    then have "log_softmax_row row ! nat t \<le> 0" by (rule log_softmax_row_nonpos)
    with v show "0 \<le> v" by simp
  qed
  then have "0 \<le> sum_list ?terms / real (length (zip input target))"
    by simp
  moreover have "cross_entropy input target =
      Inr (Val (sum_list ?terms / real (length (zip input target))))"
    unfolding cross_entropy_def Let_def kept using len in_range nonempty by simp
  ultimately show ?thesis by blast
qed

lemma softmax_rows: "\<forall>row \<in> set z. length row = K \<Longrightarrow> \<forall>row \<in> set (softmax z). length row = K"
  by (auto simp: softmax_def softmax_row_def)

text \<open>
  C8. On a batch that is not empty, with one row of \<open>K\<close> class scores per sample
  from the network and every label in \<open>0 .. K - 1\<close>, when the augmentation, the
  network and the accuracy metric return, \<open>training_step\<close> returns a loss that is a
  real number and is not negative.
\<close>

theorem training_step_loss_nonneg:
  assumes "DataAugmentation_forward kornia (transform s) x (rng s) = (Inr x_aug, g')"
    and "net x_aug (model s) = (Inr z, m')"
    and "acc (softmax z) y (accuracy s) = (Inr a, c')"
    and "length z = length y"
    and "y \<noteq> []"
    and "\<forall>row \<in> set z. length row = K"
    and "\<forall>t \<in> set y. 0 \<le> t \<and> t < int K"
  shows "\<exists>l. fst (training_step kornia net acc (x, y) batch_idx s) = Inr (Val l) \<and> 0 \<le> l"
proof -
  have "length (softmax z) = length y"
    using assms(4) by (simp add: softmax_def)
  moreover have "\<forall>row \<in> set (softmax z). length row = K"
    using assms(6) by (rule softmax_rows)
  ultimately obtain l where loss: "cross_entropy (softmax z) y = Inr (Val l)" and nonneg: "0 \<le> l"
    using assms(5,7) cross_entropy_nonneg [of "softmax z" y K] by blast
  have "fst (training_step kornia net acc (x, y) batch_idx s) = Inr (Val l)"
    using assms(1,2,3) loss
    by (simp add: training_step_def bindE_def on_rng_def forward_def on_model_def returnE_def
        liftE_def compute_loss_def log_metric_def on_accuracy_def)
  with nonneg show ?thesis by blast
qed

theorem training_step_loss_nonneg_witness:
  "\<exists>l. fst (training_step
       (\<lambda>m t g. (Inr (t\<lparr>data := rev (data t)\<rparr>), Suc g))
       (\<lambda>t m. (Inr [[0, 0], [1, 3]], m\<lparr>buffers := Suc (buffers m)\<rparr>))
       (\<lambda>p y c. (Inr (Val 1), Suc c))
       (\<lparr>shape = [2, 3, 1, 1], data = [0, 0.5, 1, 1, 0.5, 0]\<rparr>, [1, 0]) 0
       (CoolSystem_init \<lparr>parameters = [7::int], buffers = 0::nat\<rparr> (0::nat) (0::nat))) = Inr (Val l)
     \<and> 0 \<le> l"
proof -
  let ?k = "\<lambda>(m::aug) (t::real tensor) (g::nat). (Inr (t\<lparr>data := rev (data t)\<rparr>) :: error + real tensor, Suc g)"
  let ?n = "\<lambda>(t::real tensor) (m::(int list, nat) module).
              (Inr [[0, 0], [1, 3]] :: error + logits, m\<lparr>buffers := Suc (buffers m)\<rparr>)"
  let ?a = "\<lambda>(p::logits) (y::int list) (c::nat). (Inr (Val 1) :: error + scalar, Suc c)"
  let ?x = "\<lparr>shape = [2, 3, 1, 1], data = [0, 0.5, 1, 1, 0.5, 0::real]\<rparr>"
  let ?s = "CoolSystem_init \<lparr>parameters = [7::int], buffers = 0::nat\<rparr> (0::nat) (0::nat)"
  have aug: "DataAugmentation_forward ?k (transform ?s) ?x (rng ?s) =
      (Inr \<lparr>shape = [2, 3, 1, 1], data = [0, 0.5, 1, 1, 0.5, 0]\<rparr>, 3)"
    by (simp add: CoolSystem_init_def DataAugmentation_default_def DataAugmentation_init_def
        DataAugmentation_forward_def bindE_def returnE_def)
  have fwd: "?n \<lparr>shape = [2, 3, 1, 1], data = [0, 0.5, 1, 1, 0.5, 0]\<rparr> (model ?s) =
      (Inr [[0, 0], [1, 3]], \<lparr>parameters = [7], buffers = 1\<rparr>)"
    by (simp add: CoolSystem_init_def)
  have acc: "?a (softmax [[0, 0], [1, 3]]) [1, 0] (accuracy ?s) = (Inr (Val 1), 1)"
    by (simp add: CoolSystem_init_def)
  have len: "length [[0, 0], [1, 3 :: real]] = length [1, 0 :: int]" by simp
  have ne: "[1, 0 :: int] \<noteq> []" by simp
  have rows: "\<forall>row \<in> set [[0, 0], [1, 3 :: real]]. length row = 2" by simp
  have labels: "\<forall>t \<in> set [1, 0 :: int]. 0 \<le> t \<and> t < int 2" by simp
  show ?thesis
    using aug fwd acc len ne rows labels by (rule training_step_loss_nonneg)
qed


section \<open>Properties of the loaders\<close>

text \<open>
  The batch sampler on consecutive indices: a batch that the next indices fill up is
  yielded whole, and fewer indices than a batch holds end as one short batch.
\<close>

lemma batch_sampler_fill:
  "length b < bs \<Longrightarrow> length b + length ys = bs \<Longrightarrow>
     batch_sampler bs dl b (ys @ rest) = (b @ ys) # batch_sampler bs dl [] rest"
proof (induction ys arbitrary: b)
  case Nil
  then show ?case by simp
next
  case (Cons y ys)
  show ?case
  proof (cases "length (b @ [y]) = bs")
    case True
    then have "Suc (length b) = bs" by simp
    moreover from Cons.prems(2) have "Suc (length b + length ys) = bs" by simp
    ultimately have "length ys = 0" by linarith
    then have "ys = []" by simp
    with True show ?thesis by (simp add: Let_def)
  next
    case False
    with Cons.prems have "length (b @ [y]) < bs" "length (b @ [y]) + length ys = bs" by simp_all
    then have "batch_sampler bs dl (b @ [y]) (ys @ rest) =
        ((b @ [y]) @ ys) # batch_sampler bs dl [] rest"
      by (rule Cons.IH)
    with False show ?thesis by (simp add: Let_def)
  qed
qed

lemma batch_sampler_short:
  "length b + length xs < bs \<Longrightarrow>
     batch_sampler bs False b xs = (if b @ xs = [] then [] else [b @ xs])"
  by (induction xs arbitrary: b) (auto simp: Let_def)

lemma batch_sampler_upt:
  assumes "0 < bs"
  shows "batch_sampler bs False [] [s..<s + m] =
     map (\<lambda>k. [s + bs * k ..< min (s + m) (s + bs * k + bs)]) [0..<(m + bs - 1) div bs]"
proof (induction m arbitrary: s rule: less_induct)
  case (less m)
  show ?case
  proof (cases "m < bs")
    case True
    show ?thesis
    proof (cases "m = 0")
      case True
      with assms show ?thesis by simp
    next
      case False
      with True have d: "(m + bs - Suc 0) div bs = Suc 0"
        by (intro div_nat_eqI) simp_all
      from True False show ?thesis
        by (simp add: batch_sampler_short d)
    qed
  next
    case False
    then have ge: "bs \<le> m" by simp
    define m' where "m' = m - bs"
    have m: "m = bs + m'" using ge by (simp add: m'_def)
    have lt: "m' < m" using assms ge by (simp add: m'_def)
    have split: "[s..<s + m] = [s..<s + bs] @ [s + bs..<(s + bs) + m']"
      unfolding m using upt_add_eq_append [of s "s + bs" m'] by (simp add: add.assoc)
    have fill: "batch_sampler bs False [] ([s..<s + bs] @ [s + bs..<(s + bs) + m']) =
        ([] @ [s..<s + bs]) # batch_sampler bs False [] [s + bs..<(s + bs) + m']"
      by (rule batch_sampler_fill) (use assms in simp_all)
    have "bs + m' + bs - 1 = (m' + bs - 1) + bs" using assms by simp
    then have d: "(m + bs - 1) div bs = Suc ((m' + bs - 1) div bs)"
      unfolding m using assms by (simp only: div_add_self2)
    have "map (\<lambda>k. [s + bs * k ..< min (s + m) (s + bs * k + bs)]) [0..<Suc ((m' + bs - 1) div bs)]
        = [s ..< min (s + m) (s + bs)] #
          map (\<lambda>k. [(s + bs) + bs * k ..< min ((s + bs) + m') ((s + bs) + bs * k + bs)])
            [0..<(m' + bs - 1) div bs]"
      unfolding m by (simp add: upt_conv_Cons map_Suc_upt [symmetric] add.assoc del: upt_Suc)
    moreover have "min (s + m) (s + bs) = s + bs" using ge by simp
    ultimately show ?thesis
      unfolding d using split fill less.IH [OF lt, of "s + bs"] by simp
  qed
qed

text \<open>
  C9, as the code has it. The loader that \<open>train_dataloader\<close> returns has batch size
  32 and shuffling disabled. Over a dataset of \<open>n\<close> samples, whatever \<open>randperm\<close> would
  draw, its batches are the consecutive runs of 32 indices in the dataset's order,
  \<open>0 .. 31\<close>, \<open>32 .. 63\<close> and so on: \<open>(n + 31) div 32\<close> batches, each of 32 indices
  but the last, which holds what is left when \<open>n\<close> is not a multiple of 32.
\<close>

theorem train_dataloader_sequential_batches:
  "batch_size (train_dataloader cwd) = 32
   \<and> \<not> shuffle (train_dataloader cwd)
   \<and> fst (DataLoader_iter base_seed randperm (train_dataloader cwd) n g) =
       Inr (map (\<lambda>k. [32 * k ..< min n (32 * k + 32)]) [0..<(n + 31) div 32])"
proof -
  have "batch_sampler 32 False [] [0..<0 + n] =
      map (\<lambda>k. [0 + 32 * k ..< min (0 + n) (0 + 32 * k + 32)]) [0..<(n + 32 - 1) div 32]"
    by (rule batch_sampler_upt) simp
  then have "batch_sampler 32 False [] [0..<n] =
      map (\<lambda>k. [32 * k ..< min n (32 * k + 32)]) [0..<(n + 31) div 32]"
    by (simp add: add.commute [of n 31])
  then show ?thesis
    by (simp add: DataLoader_iter_def sampler_def train_dataloader_def DataLoader_init_def
        bindE_def returnE_def split: prod.splits)
qed

text \<open>
  An instance: 70 samples, and a \<open>randperm\<close> that would reverse the order. The batches
  are the first 32 indices, the next 32 and the last 6.
\<close>

theorem train_dataloader_sequential_batches_witness:
  "fst (DataLoader_iter (\<lambda>g. (7, Suc g)) (\<lambda>n g. (Inr (rev [0..<n]), Suc g))
          (train_dataloader ''/data'') 70 (0::nat))
     = Inr [[0..<32], [32..<64], [64..<70]]"
  using train_dataloader_sequential_batches
    [of "''/data''" "\<lambda>g. (7, Suc g)" "\<lambda>n g. (Inr (rev [0..<n]), Suc g)" 70 "0::nat"]
  by (simp add: upt_conv_Cons del: upt_Suc)

text \<open>
  The claim as stated fails: shuffling is not enabled, and on three samples, with a
  \<open>randperm\<close> that would reverse them, the one batch is \<open>0, 1, 2\<close>.
\<close>

theorem train_dataloader_shuffles_counterexample:
  "\<not> shuffle (train_dataloader ''/data'')
   \<and> fst (DataLoader_iter (\<lambda>g. (7, Suc g)) (\<lambda>n g. (Inr (rev [0..<n]), Suc g))
            (train_dataloader ''/data'') 3 (0::nat))
       = Inr [[0, 1, 2]]"
  by (simp add: DataLoader_iter_def sampler_def train_dataloader_def DataLoader_init_def
      bindE_def returnE_def upt_rec Let_def)

text \<open>
  C10. \<open>val_dataloader\<close> returns the loader that \<open>train_dataloader\<close> returns: both
  are over the training split (\<open>train = True\<close>) under the same root, with
  \<open>Preprocess.forward\<close> as the transform and batch size 32, and so both yield the
  same batches of the same samples.
\<close>

theorem val_dataloader_is_train_dataloader:
  "val_dataloader cwd = train_dataloader cwd
   \<and> train (dataset (val_dataloader cwd)) = True
   \<and> train (dataset (train_dataloader cwd)) = True
   \<and> root (dataset (val_dataloader cwd)) = root (dataset (train_dataloader cwd))
   \<and> cifar_transform (dataset (val_dataloader cwd)) = Preprocess_forward
   \<and> cifar_transform (dataset (train_dataloader cwd)) = Preprocess_forward
   \<and> batch_size (val_dataloader cwd) = 32
   \<and> batch_size (train_dataloader cwd) = 32
   \<and> DataLoader_iter base_seed randperm (val_dataloader cwd) n g =
       DataLoader_iter base_seed randperm (train_dataloader cwd) n g"
  by (simp add: val_dataloader_def train_dataloader_def DataLoader_init_def)


end
